theory Spec2Isabelle
  imports Complex_Main
begin

section \<open>The training monitor of run\_training\_monitor.py\<close>

text \<open>
  The monitor polls a distributed hash table for the metrics published by the training
  peers, folds them into one set of global statistics whenever the latest step differs
  from the step it last saw, and then lets a \<open>CheckpointHandler\<close> decide whether to pull
  the training state from the peers and whether to upload it.

  Conventions of the embedding:
  \<^item> Python \<open>int\<close> is \<^typ>\<open>int\<close>; Python \<open>float\<close> is \<^typ>\<open>real\<close>, so arithmetic is
    exact: rounding, infinities and NaN are outside the model.
  \<^item> A raised exception is \<open>Inl e\<close>, a normal return is \<open>Inr v\<close>. An object that has been
    mutated before an exception is raised keeps its mutation, so every stateful
    operation returns the state next to its result.
  \<^item> Calls into collaborators (the DHT, the state averager, the Netmind client, the
    clock) are effects: each appends an \<open>event\<close> to the trace of the iteration, and what
    the collaborator answers is read from the \<open>tick_env\<close> of that iteration.
  \<^item> \<open>time.sleep\<close> rejects a negative argument with \<open>ValueError\<close> before it sleeps, so
    the event \<open>Time_sleep\<close> is in the trace only when the process did sleep.
  \<^item> \<open>logger.debug\<close> lines have no effect on the state and are left out.
\<close>

subsection \<open>Exceptions\<close>

datatype py_error =
    ValueError
  | ZeroDivisionError
  | TypeError
  | NameError
  | ValidationError
  | RuntimeError
  | TimeoutError

subsection \<open>Peer metrics\<close>

text \<open>
  Modelled from the spec: \<open>utils.LocalMetrics\<close>, the pydantic model of one peer's
  published record, is declared in \<open>utils.py\<close>, which is not part of the sources at hand.
  Its fields are those of the spec's PeerMetric (section 3) and those the loop reads.
\<close>

record LocalMetrics =
  step :: int
  samples_per_second :: real
  samples_accumulated :: int
  loss :: real
  mini_steps :: int

text \<open>
  What the DHT stores under a peer's subkey: a payload that fits the model, or one that
  does not.
\<close>

datatype raw_record = Payload LocalMetrics | Malformed

text \<open>
  Modelled from the spec: \<open>LocalMetrics.parse_obj\<close> (pydantic) returns the record of a
  payload that fits the model and raises \<open>ValidationError\<close> on any other.
\<close>

fun parse_obj :: "raw_record \<Rightarrow> py_error + LocalMetrics" where
  "parse_obj (Payload m) = Inr m"
| "parse_obj Malformed = Inl ValidationError"

text \<open>
  \<open>[utils.LocalMetrics.parse_obj(metrics_dict[peer].value) for peer in metrics_dict]\<close>:
  the comprehension walks the dictionary in its order and stops at the first exception.
\<close>

fun parse_all :: "(string \<times> raw_record) list \<Rightarrow> py_error + LocalMetrics list" where
  "parse_all [] = Inr []"
| "parse_all ((peer, raw) # rest) =
     (case parse_obj raw of
        Inl e \<Rightarrow> Inl e
      | Inr m \<Rightarrow> (case parse_all rest of Inl e \<Rightarrow> Inl e | Inr ms \<Rightarrow> Inr (m # ms)))"

text \<open>
  Python's \<open>max\<close> over an iterable: \<open>ValueError\<close> when it is empty, otherwise the first
  item is the candidate and a later item replaces it when it is strictly larger.
\<close>

fun py_max :: "int list \<Rightarrow> py_error + int" where
  "py_max [] = Inl ValueError"
| "py_max (x # xs) = Inr (fold (\<lambda>y m. if m < y then y else m) xs x)"

text \<open>Python's true division \<open>a / b\<close> of a float by an int.\<close>

definition py_truediv :: "real \<Rightarrow> int \<Rightarrow> py_error + real" where
  "py_truediv a b = (if b = 0 then Inl ZeroDivisionError else Inr (a / real_of_int b))"

subsection \<open>The accumulation loop (lines 194 to 205)\<close>

record accumulators =
  alive_peers :: int
  sum_loss :: real
  num_samples :: int
  sum_perf :: real
  sum_mini_steps :: int

definition zero_accumulators :: accumulators where
  "zero_accumulators =
     \<lparr>alive_peers = 0, sum_loss = 0, num_samples = 0, sum_perf = 0, sum_mini_steps = 0\<rparr>"

definition accumulate :: "LocalMetrics \<Rightarrow> accumulators \<Rightarrow> accumulators" where
  "accumulate item a =
     a\<lparr>sum_loss := sum_loss a + loss item,
       alive_peers := alive_peers a + 1,
       sum_perf := sum_perf a + samples_per_second item,
       num_samples := num_samples a + samples_accumulated item,
       sum_mini_steps := sum_mini_steps a + mini_steps item\<rparr>"

definition accumulate_all :: "LocalMetrics list \<Rightarrow> accumulators" where
  "accumulate_all metrics = fold accumulate metrics zero_accumulators"

text \<open>The dictionary \<open>monitor_metrics\<close>; the empty dictionary of line 175 is \<open>None\<close>.\<close>

record monitor_metrics_t =
  mm_loss :: real
  mm_alive_peers :: int
  mm_samples :: int
  mm_performance :: real

subsection \<open>Arguments, effects and the environment of one iteration\<close>

record TrainingMonitorArguments =
  refresh_period :: real
  save_checkpoint_step_interval :: "int option"
  upload_interval :: "real option"
  store_checkpoints :: bool

datatype event =
    Dht_get
  | Logger_info_step int real
  | Logger_info_saving
  | Load_state_from_peers
  | Time_time
  | Save_pretrained
  | Time_sleep real
  | Hmp_step int "monitor_metrics_t option"

text \<open>
  What the collaborators answer during one iteration of the loop. \<open>dht_get\<close> is the
  result of \<open>dht.get(..., latest=True)\<close>: an exception, \<open>None\<close>, or the dictionary of the
  peers' subkeys in its iteration order. For the calls that return nothing, \<open>None\<close> is a
  normal return and \<open>Some e\<close> the exception raised.
\<close>

record tick_env =
  dht_get :: "py_error + (string \<times> raw_record) list option"
  load_state_from_peers :: "py_error option"
  time_at_check :: real
  save_pretrained :: "py_error option"
  time_at_upload :: real
  hmp_step :: "py_error option"

subsection \<open>CheckpointHandler\<close>

text \<open>
  The fields the methods read and write. The model, the optimizer and the state averager
  built by the constructor are opaque collaborators.
\<close>

record CheckpointHandler =
  ckpt_save_checkpoint_step_interval :: "int option"
  ckpt_upload_interval :: "real option"
  previous_step :: int
  previous_timestamp :: real

definition CheckpointHandler_init :: "TrainingMonitorArguments \<Rightarrow> real \<Rightarrow> CheckpointHandler" where
  "CheckpointHandler_init monitor_args now =
     \<lparr>ckpt_save_checkpoint_step_interval = save_checkpoint_step_interval monitor_args,
      ckpt_upload_interval = upload_interval monitor_args,
      previous_step = - 1,
      previous_timestamp = now\<rparr>"

definition is_time_to_save_state :: "CheckpointHandler \<Rightarrow> int \<Rightarrow> bool" where
  "is_time_to_save_state self cur_step =
     (case ckpt_save_checkpoint_step_interval self of
        None \<Rightarrow> False
      | Some interval \<Rightarrow>
          if cur_step - previous_step self \<ge> interval then True else False)"

definition save_state ::
  "tick_env \<Rightarrow> CheckpointHandler \<Rightarrow> int \<Rightarrow> CheckpointHandler \<times> event list \<times> (py_error + unit)" where
  "save_state env self cur_step =
     (case load_state_from_peers env of
        Some e \<Rightarrow> (self, [Logger_info_saving, Load_state_from_peers], Inl e)
      | None \<Rightarrow>
          (self\<lparr>previous_step := cur_step\<rparr>, [Logger_info_saving, Load_state_from_peers], Inr ()))"

text \<open>
  \<open>time.time() - self.previous_timestamp >= self.upload_interval\<close>: the clock is read
  and the difference taken first; comparing a float with \<open>None\<close> raises \<open>TypeError\<close>.
\<close>

definition is_time_to_upload :: "tick_env \<Rightarrow> CheckpointHandler \<Rightarrow> event list \<times> (py_error + bool)" where
  "is_time_to_upload env self =
     (case ckpt_upload_interval self of
        None \<Rightarrow> ([Time_time], Inl TypeError)
      | Some interval \<Rightarrow>
          ([Time_time],
           Inr (if time_at_check env - previous_timestamp self \<ge> interval then True else False)))"

definition upload_checkpoint ::
  "tick_env \<Rightarrow> CheckpointHandler \<Rightarrow> real \<Rightarrow> CheckpointHandler \<times> event list \<times> (py_error + unit)" where
  "upload_checkpoint env self current_loss =
     (case save_pretrained env of
        Some e \<Rightarrow> (self, [Save_pretrained], Inl e)
      | None \<Rightarrow>
          (self\<lparr>previous_timestamp := time_at_upload env\<rparr>, [Save_pretrained, Time_time], Inr ()))"

subsection \<open>The main loop\<close>

record monitor_state =
  current_step :: int
  monitor_metrics :: "monitor_metrics_t option"
  checkpoint_handler :: "CheckpointHandler option"

text \<open>
  Lines 174 to 177. \<open>checkpoint_handler\<close> is bound only when \<open>store_checkpoints\<close> is set;
  \<open>now\<close> is the clock reading taken by the handler's constructor.
\<close>

definition initial_state :: "TrainingMonitorArguments \<Rightarrow> real \<Rightarrow> monitor_state" where
  "initial_state monitor_args now =
     \<lparr>current_step = 0,
      monitor_metrics = None,
      checkpoint_handler =
        (if store_checkpoints monitor_args then Some (CheckpointHandler_init monitor_args now)
         else None)\<rparr>"

text \<open>Lines 217 to 220, on the handler.\<close>

definition coordinate ::
  "tick_env \<Rightarrow> CheckpointHandler \<Rightarrow> int \<Rightarrow> real \<Rightarrow> CheckpointHandler \<times> event list \<times> (py_error + unit)" where
  "coordinate env h cur_step current_loss =
     (if is_time_to_save_state h cur_step then
        (case save_state env h cur_step of
           (h1, ev1, Inl e) \<Rightarrow> (h1, ev1, Inl e)
         | (h1, ev1, Inr u) \<Rightarrow>
             (case is_time_to_upload env h1 of
                (ev2, Inl e) \<Rightarrow> (h1, ev1 @ ev2, Inl e)
              | (ev2, Inr upload) \<Rightarrow>
                  if upload then
                    (case upload_checkpoint env h1 current_loss of
                       (h2, ev3, r) \<Rightarrow> (h2, ev1 @ ev2 @ ev3, r))
                  else (h1, ev1 @ ev2, Inr ())))
      else (h, [], Inr ()))"

text \<open>Lines 216 to 220: the handler is looked up only when \<open>store_checkpoints\<close> is set.\<close>

definition checkpoint_block ::
  "TrainingMonitorArguments \<Rightarrow> tick_env \<Rightarrow> monitor_state \<Rightarrow> real \<Rightarrow>
     monitor_state \<times> event list \<times> (py_error + unit)" where
  "checkpoint_block monitor_args env s current_loss =
     (if store_checkpoints monitor_args then
        (case checkpoint_handler s of
           None \<Rightarrow> (s, [], Inl NameError)
         | Some h \<Rightarrow>
             (case coordinate env h (current_step s) current_loss of
                (h', evs, r) \<Rightarrow> (s\<lparr>checkpoint_handler := Some h'\<rparr>, evs, r)))
      else (s, [], Inr ()))"

text \<open>
  Lines 193 to 220, entered when \<open>latest_step != current_step\<close>: the step is recorded
  first, then the metrics are summed and divided, logged and stored, and the handler is
  consulted.
\<close>

definition new_step ::
  "TrainingMonitorArguments \<Rightarrow> tick_env \<Rightarrow> monitor_state \<Rightarrow> LocalMetrics list \<Rightarrow> int \<Rightarrow>
     monitor_state \<times> event list \<times> (py_error + unit)" where
  "new_step monitor_args env s metrics latest_step =
     (let s1 = s\<lparr>current_step := latest_step\<rparr>;
          a = accumulate_all metrics
      in case py_truediv (sum_loss a) (sum_mini_steps a) of
           Inl e \<Rightarrow> (s1, [], Inl e)
         | Inr current_loss \<Rightarrow>
             (let s2 = s1\<lparr>monitor_metrics :=
                          Some \<lparr>mm_loss = current_loss,
                                mm_alive_peers = alive_peers a,
                                mm_samples = num_samples a,
                                mm_performance = sum_perf a\<rparr>\<rparr>
              in case checkpoint_block monitor_args env s2 current_loss of
                   (s3, evs, r) \<Rightarrow> (s3, Logger_info_step latest_step current_loss # evs, r)))"

text \<open>Lines 180 to 220: everything of one iteration before the sleep.\<close>

definition poll ::
  "TrainingMonitorArguments \<Rightarrow> tick_env \<Rightarrow> monitor_state \<Rightarrow>
     monitor_state \<times> event list \<times> (py_error + unit)" where
  "poll monitor_args env s =
     (case dht_get env of
        Inl e \<Rightarrow> (s, [Dht_get], Inl e)
      | Inr None \<Rightarrow> (s, [Dht_get], Inr ())
      | Inr (Some metrics_dict) \<Rightarrow>
          (case parse_all metrics_dict of
             Inl e \<Rightarrow> (s, [Dht_get], Inl e)
           | Inr metrics \<Rightarrow>
               (case py_max (map step metrics) of
                  Inl e \<Rightarrow> (s, [Dht_get], Inl e)
                | Inr latest_step \<Rightarrow>
                    if latest_step \<noteq> current_step s then
                      (case new_step monitor_args env s metrics latest_step of
                         (s', evs, r) \<Rightarrow> (s', Dht_get # evs, r))
                    else (s, [Dht_get], Inr ()))))"

text \<open>
  \<open>time.sleep(secs)\<close>: a negative length raises \<open>ValueError\<close> and nothing is slept.
\<close>

definition time_sleep :: "real \<Rightarrow> event list \<times> (py_error + unit)" where
  "time_sleep secs = (if secs < 0 then ([], Inl ValueError) else ([Time_sleep secs], Inr ()))"

text \<open>
  One iteration of \<open>while True\<close>: lines 180 to 223. The sleep is reached only when
  nothing before it raised, and the report to Netmind only when the sleep returned.
\<close>

definition tick ::
  "TrainingMonitorArguments \<Rightarrow> tick_env \<Rightarrow> monitor_state \<Rightarrow>
     monitor_state \<times> event list \<times> (py_error + unit)" where
  "tick monitor_args env s =
     (case poll monitor_args env s of
        (s', evs, Inl e) \<Rightarrow> (s', evs, Inl e)
      | (s', evs, Inr u) \<Rightarrow>
          (case time_sleep (refresh_period monitor_args) of
             (evs1, Inl e) \<Rightarrow> (s', evs @ evs1, Inl e)
           | (evs1, Inr u1) \<Rightarrow>
               (s',
                evs @ evs1 @ [Hmp_step (current_step s') (monitor_metrics s')],
                (case hmp_step env of Some e \<Rightarrow> Inl e | None \<Rightarrow> Inr ()))))"

text \<open>
  The loop over the answers of the collaborators, one \<open>tick_env\<close> per iteration. The
  loop itself never ends; a list of environments gives its first iterations. An
  exception leaves the loop, as nothing in the file catches it.
\<close>

fun run ::
  "TrainingMonitorArguments \<Rightarrow> monitor_state \<Rightarrow> tick_env list \<Rightarrow>
     monitor_state \<times> event list \<times> (py_error + unit)" where
  "run monitor_args s [] = (s, [], Inr ())"
| "run monitor_args s (env # envs) =
     (case tick monitor_args env s of
        (s', evs, Inl e) \<Rightarrow> (s', evs, Inl e)
      | (s', evs, Inr u) \<Rightarrow>
          (case run monitor_args s' envs of (s'', evs', r) \<Rightarrow> (s'', evs @ evs', r)))"

subsection \<open>Reading a trace\<close>

fun snapshot_of :: "event \<Rightarrow> (int \<times> real) option" where
  "snapshot_of (Logger_info_step st l) = Some (st, l)"
| "snapshot_of _ = None"

text \<open>The steps and losses logged by line 207, in order.\<close>

definition snapshots :: "event list \<Rightarrow> (int \<times> real) list" where
  "snapshots evs = List.map_filter snapshot_of evs"



text \<open>The events of lines 119 to 141: what the handler does when it saves and uploads.\<close>

fun checkpoint_event :: "event \<Rightarrow> bool" where
  "checkpoint_event Logger_info_saving = True"
| "checkpoint_event Load_state_from_peers = True"
| "checkpoint_event Time_time = True"
| "checkpoint_event Save_pretrained = True"
| "checkpoint_event _ = False"

text \<open>
  An environment whose decoded records, if the DHT answers any and they all decode, have
  \<open>step = 0\<close> throughout.
\<close>

definition only_step_zero :: "tick_env \<Rightarrow> bool" where
  "only_step_zero env =
     (case dht_get env of
        Inr (Some metrics_dict) \<Rightarrow>
          (case parse_all metrics_dict of
             Inr metrics \<Rightarrow> list_all (\<lambda>item. step item = 0) metrics
           | Inl e \<Rightarrow> True)
      | _ \<Rightarrow> True)"

subsection \<open>Example inputs\<close>

text \<open>
  The defaults of \<open>TrainingMonitorArguments\<close> (lines 53 to 73), a peer record with the
  fields the scenarios of the specification give, and an environment in which the DHT
  answers a given dictionary and every other collaborator returns normally.
\<close>

definition default_args :: TrainingMonitorArguments where
  "default_args =
     \<lparr>refresh_period = 30, save_checkpoint_step_interval = Some 5, upload_interval = None,
      store_checkpoints = False\<rparr>"

definition peer_metrics :: "int \<Rightarrow> real \<Rightarrow> int \<Rightarrow> LocalMetrics" where
  "peer_metrics st l k =
     \<lparr>step = st, samples_per_second = 0, samples_accumulated = 0, loss = l, mini_steps = k\<rparr>"

definition answering :: "(string \<times> raw_record) list option \<Rightarrow> tick_env" where
  "answering d =
     \<lparr>dht_get = Inr d, load_state_from_peers = None, time_at_check = 0, save_pretrained = None,
      time_at_upload = 0, hmp_step = None\<rparr>"

text \<open>
  Arguments with checkpoints enabled, a handler with given intervals and bookkeeping, and
  a loop state that holds it.
\<close>

definition checkpointing_args :: "int \<Rightarrow> real \<Rightarrow> TrainingMonitorArguments" where
  "checkpointing_args k u =
     \<lparr>refresh_period = 30, save_checkpoint_step_interval = Some k, upload_interval = Some u,
      store_checkpoints = True\<rparr>"

definition handler_at :: "int \<Rightarrow> real \<Rightarrow> int \<Rightarrow> real \<Rightarrow> CheckpointHandler" where
  "handler_at k u p t =
     \<lparr>ckpt_save_checkpoint_step_interval = Some k, ckpt_upload_interval = Some u,
      previous_step = p, previous_timestamp = t\<rparr>"

definition state_at :: "int \<Rightarrow> CheckpointHandler \<Rightarrow> monitor_state" where
  "state_at c h = \<lparr>current_step = c, monitor_metrics = None, checkpoint_handler = Some h\<rparr>"

section \<open>Properties of the building blocks\<close>

lemma py_max_fold: "fold (\<lambda>y m. if m < y then y else m) xs (x::int) = Max (set (x # xs))"
proof -
  have "(\<lambda>y m. if m < y then y else m) = (max :: int \<Rightarrow> int \<Rightarrow> int)"
    by (intro ext) (simp add: max_def)
  then show ?thesis by (simp only: Max.set_eq_fold)
qed

lemma py_max_nonempty: "xs \<noteq> [] \<Longrightarrow> py_max xs = Inr (Max (set xs))"
  by (cases xs) (simp_all only: py_max.simps py_max_fold, simp)

lemma fold_accumulate:
  "fold accumulate ms a =
     \<lparr>alive_peers = alive_peers a + int (length ms),
      sum_loss = sum_loss a + sum_list (map loss ms),
      num_samples = num_samples a + sum_list (map samples_accumulated ms),
      sum_perf = sum_perf a + sum_list (map samples_per_second ms),
      sum_mini_steps = sum_mini_steps a + sum_list (map mini_steps ms)\<rparr>"
  by (induction ms arbitrary: a) (simp_all add: accumulate_def)

lemma accumulate_all_sums:
  "accumulate_all ms =
     \<lparr>alive_peers = int (length ms),
      sum_loss = sum_list (map loss ms),
      num_samples = sum_list (map samples_accumulated ms),
      sum_perf = sum_list (map samples_per_second ms),
      sum_mini_steps = sum_list (map mini_steps ms)\<rparr>"
  by (simp add: accumulate_all_def fold_accumulate zero_accumulators_def)

lemma coordinate_snapshots: "coordinate env h c l = (h', evs, r) \<Longrightarrow> snapshots evs = []"
  by (auto simp add: coordinate_def save_state_def is_time_to_upload_def upload_checkpoint_def
      snapshots_def split: option.splits if_splits)

lemma checkpoint_block_state:
  "current_step (fst (checkpoint_block a env s l)) = current_step s"
  "monitor_metrics (fst (checkpoint_block a env s l)) = monitor_metrics s"
  by (simp_all add: checkpoint_block_def split: option.splits prod.splits)

lemma checkpoint_block_snapshots: "snapshots (fst (snd (checkpoint_block a env s l))) = []"
  by (auto simp add: checkpoint_block_def snapshots_def
      dest: coordinate_snapshots[unfolded snapshots_def] split: option.splits prod.splits)

lemma coordinate_unfold:
  "coordinate env h c l =
     (case ckpt_save_checkpoint_step_interval h of
        None \<Rightarrow> (h, [], Inr ())
      | Some k \<Rightarrow>
          if c - previous_step h < k then (h, [], Inr ())
          else (case load_state_from_peers env of
                  Some e \<Rightarrow> (h, [Logger_info_saving, Load_state_from_peers], Inl e)
                | None \<Rightarrow>
                   (case ckpt_upload_interval h of
                      None \<Rightarrow> (h\<lparr>previous_step := c\<rparr>,
                                [Logger_info_saving, Load_state_from_peers, Time_time], Inl TypeError)
                    | Some u \<Rightarrow>
                        if time_at_check env - previous_timestamp h < u then
                          (h\<lparr>previous_step := c\<rparr>,
                           [Logger_info_saving, Load_state_from_peers, Time_time], Inr ())
                        else (case save_pretrained env of
                                Some e \<Rightarrow>
                                  (h\<lparr>previous_step := c\<rparr>,
                                   [Logger_info_saving, Load_state_from_peers, Time_time,
                                    Save_pretrained], Inl e)
                              | None \<Rightarrow>
                                  (h\<lparr>previous_step := c, previous_timestamp := time_at_upload env\<rparr>,
                                   [Logger_info_saving, Load_state_from_peers, Time_time,
                                    Save_pretrained, Time_time], Inr ())))))"
  by (simp add: coordinate_def is_time_to_save_state_def save_state_def is_time_to_upload_def
      upload_checkpoint_def not_le split: option.splits)

lemma poll_decoded:
  assumes "dht_get env = Inr (Some d)" "parse_all d = Inr ms" "ms \<noteq> []"
  shows "poll a env s =
     (if Max (step ` set ms) = current_step s then (s, [Dht_get], Inr ())
      else (case new_step a env s ms (Max (step ` set ms)) of
              (s', evs, r) \<Rightarrow> (s', Dht_get # evs, r)))"
  using assms by (simp add: poll_def py_max_nonempty)

lemma new_step_unfold:
  "new_step a env s ms latest =
     (if sum_list (map mini_steps ms) = 0 then (s\<lparr>current_step := latest\<rparr>, [], Inl ZeroDivisionError)
      else (case checkpoint_block a env
                   (s\<lparr>current_step := latest,
                      monitor_metrics :=
                        Some \<lparr>mm_loss = sum_list (map loss ms) / real_of_int (sum_list (map mini_steps ms)),
                              mm_alive_peers = int (length ms),
                              mm_samples = sum_list (map samples_accumulated ms),
                              mm_performance = sum_list (map samples_per_second ms)\<rparr>\<rparr>)
                   (sum_list (map loss ms) / real_of_int (sum_list (map mini_steps ms))) of
              (s3, evs, r) \<Rightarrow>
                (s3, Logger_info_step latest
                       (sum_list (map loss ms) / real_of_int (sum_list (map mini_steps ms))) # evs, r)))"
  by (simp add: new_step_def accumulate_all_sums py_truediv_def Let_def)

lemma checkpoint_block_proj:
  "checkpoint_block a env s l =
     (if store_checkpoints a then
        (case checkpoint_handler s of
           None \<Rightarrow> (s, [], Inl NameError)
         | Some h \<Rightarrow>
             (s\<lparr>checkpoint_handler := Some (fst (coordinate env h (current_step s) l))\<rparr>,
              fst (snd (coordinate env h (current_step s) l)),
              snd (snd (coordinate env h (current_step s) l))))
      else (s, [], Inr ()))"
  by (simp add: checkpoint_block_def case_prod_unfold split: option.splits)

lemma tick_proj:
  "tick a env s =
     (case snd (snd (poll a env s)) of
        Inl e \<Rightarrow> poll a env s
      | Inr u \<Rightarrow>
          if refresh_period a < 0 then
            (fst (poll a env s), fst (snd (poll a env s)), Inl ValueError)
          else
            (fst (poll a env s),
             fst (snd (poll a env s)) @
               [Time_sleep (refresh_period a),
                Hmp_step (current_step (fst (poll a env s))) (monitor_metrics (fst (poll a env s)))],
             (case hmp_step env of Some e \<Rightarrow> Inl e | None \<Rightarrow> Inr ())))"
  by (cases "poll a env s" rule: prod_cases3)
    (simp add: tick_def time_sleep_def split: sum.splits)

lemma tick_trace_extends: "\<exists>rest. fst (snd (tick a env s)) = fst (snd (poll a env s)) @ rest"
proof (cases "snd (snd (poll a env s))")
  case (Inl e)
  then have "fst (snd (tick a env s)) = fst (snd (poll a env s)) @ []" by (simp add: tick_proj)
  then show ?thesis by blast
next
  case (Inr u)
  show ?thesis
  proof (cases "refresh_period a < 0")
    case True
    with Inr have "fst (snd (tick a env s)) = fst (snd (poll a env s)) @ []"
      by (simp add: tick_proj)
    then show ?thesis by blast
  next
    case False
    with Inr show ?thesis by (simp add: tick_proj)
  qed
qed

lemma tick_fst: "fst (tick a env s) = fst (poll a env s)"
  by (simp add: tick_proj split: sum.splits)

lemma poll_current_step_decoded:
  assumes "dht_get env = Inr (Some d)" "parse_all d = Inr ms" "ms \<noteq> []"
  shows "current_step (fst (poll a env s)) = Max (step ` set ms)"
  using assms
  by (simp add: poll_decoded new_step_unfold case_prod_unfold checkpoint_block_state)

lemma poll_shape:
  "(fst (poll a env s) = s \<and> fst (snd (poll a env s)) = [Dht_get])
   \<or> (\<exists>d ms. dht_get env = Inr (Some d) \<and> parse_all d = Inr ms \<and> ms \<noteq> []
         \<and> Max (step ` set ms) \<noteq> current_step s \<and> sum_list (map mini_steps ms) = 0
         \<and> poll a env s = (s\<lparr>current_step := Max (step ` set ms)\<rparr>, [Dht_get], Inl ZeroDivisionError))
   \<or> (\<exists>d ms l cb. dht_get env = Inr (Some d) \<and> parse_all d = Inr ms \<and> ms \<noteq> []
         \<and> Max (step ` set ms) \<noteq> current_step s \<and> sum_list (map mini_steps ms) \<noteq> 0
         \<and> l = sum_list (map loss ms) / real_of_int (sum_list (map mini_steps ms))
         \<and> cb = checkpoint_block a env
                  (s\<lparr>current_step := Max (step ` set ms),
                     monitor_metrics :=
                       Some \<lparr>mm_loss = l, mm_alive_peers = int (length ms),
                             mm_samples = sum_list (map samples_accumulated ms),
                             mm_performance = sum_list (map samples_per_second ms)\<rparr>\<rparr>) l
         \<and> poll a env s =
             (fst cb, Dht_get # Logger_info_step (Max (step ` set ms)) l # fst (snd cb), snd (snd cb)))"
proof (cases "dht_get env")
  case (Inl e)
  then show ?thesis by (simp add: poll_def)
next
  case (Inr x)
  show ?thesis
  proof (cases x)
    case None
    with Inr show ?thesis by (simp add: poll_def)
  next
    case (Some d)
    show ?thesis
    proof (cases "parse_all d")
      case (Inl e)
      with Inr Some show ?thesis by (simp add: poll_def)
    next
      case ms: (Inr ms)
      show ?thesis
      proof (cases "ms = []")
        case True
        with Inr Some ms show ?thesis by (simp add: poll_def)
      next
        case ne: False
        have dec: "dht_get env = Inr (Some d)" using Inr Some by simp
        note pd = poll_decoded[OF dec ms ne, of a s]
        show ?thesis
        proof (cases "Max (step ` set ms) = current_step s")
          case True
          then show ?thesis by (simp add: pd)
        next
          case neq: False
          show ?thesis
          proof (cases "sum_list (map mini_steps ms) = 0")
            case True
            then show ?thesis using dec ms ne neq
              by (simp add: pd new_step_unfold)
          next
            case False
            then show ?thesis using dec ms ne neq
              by (simp add: pd new_step_unfold case_prod_unfold)
          qed
        qed
      qed
    qed
  qed
qed

lemma snapshots_append: "snapshots (xs @ ys) = snapshots xs @ snapshots ys"
  by (simp add: snapshots_def List.map_filter_def)

lemma snapshots_simps:
  "snapshots [] = []"
  "snapshots (Logger_info_step st l # evs) = (st, l) # snapshots evs"
  "snapshots (Dht_get # evs) = snapshots evs"
  "snapshots (Time_sleep r # evs) = snapshots evs"
  "snapshots (Hmp_step st mm # evs) = snapshots evs"
  by (simp_all add: snapshots_def)

lemma tick_snapshots: "snapshots (fst (snd (tick a env s))) = snapshots (fst (snd (poll a env s)))"
  by (simp add: tick_proj snapshots_append snapshots_simps split: sum.splits)

lemma poll_snapshots:
  "snapshots (fst (snd (poll a env s))) = []
   \<or> (\<exists>d ms. dht_get env = Inr (Some d) \<and> parse_all d = Inr ms \<and> ms \<noteq> []
         \<and> Max (step ` set ms) \<noteq> current_step s \<and> sum_list (map mini_steps ms) \<noteq> 0
         \<and> snapshots (fst (snd (poll a env s))) =
             [(Max (step ` set ms),
               sum_list (map loss ms) / real_of_int (sum_list (map mini_steps ms)))])"
  using poll_shape[of a env s]
  by (elim disjE exE conjE) (simp_all add: snapshots_simps checkpoint_block_snapshots)

lemmas eval_defs = tick_def time_sleep_def poll_def new_step_def checkpoint_block_def accumulate_all_def
  accumulate_def zero_accumulators_def py_truediv_def answering_def peer_metrics_def
  default_args_def initial_state_def snapshots_simps Let_def

lemma tick_trace_checkpoint_event:
  "checkpoint_event ev \<Longrightarrow>
     ev \<in> set (fst (snd (tick a env s))) \<longleftrightarrow> ev \<in> set (fst (snd (poll a env s)))"
  by (cases ev) (auto simp add: tick_proj split: sum.splits)

lemma poll_reaches:
  "(checkpoint_handler (fst (poll a env s)) = checkpoint_handler s
      \<and> fst (snd (poll a env s)) = [Dht_get])
   \<or> (\<exists>L l. checkpoint_handler (fst (poll a env s)) = checkpoint_handler s
         \<and> fst (snd (poll a env s)) = [Dht_get, Logger_info_step L l])
   \<or> (\<exists>d ms h L l. dht_get env = Inr (Some d) \<and> parse_all d = Inr ms \<and> ms \<noteq> []
         \<and> L = Max (step ` set ms) \<and> L \<noteq> current_step s
         \<and> sum_list (map mini_steps ms) \<noteq> 0
         \<and> l = sum_list (map loss ms) / real_of_int (sum_list (map mini_steps ms))
         \<and> store_checkpoints a \<and> checkpoint_handler s = Some h
         \<and> current_step (fst (poll a env s)) = L
         \<and> checkpoint_handler (fst (poll a env s)) = Some (fst (coordinate env h L l))
         \<and> fst (snd (poll a env s)) =
             Dht_get # Logger_info_step L l # fst (snd (coordinate env h L l))
         \<and> snd (snd (poll a env s)) = snd (snd (coordinate env h L l)))"
  using poll_shape[of a env s]
proof (elim disjE exE conjE)
  assume "fst (poll a env s) = s" "fst (snd (poll a env s)) = [Dht_get]"
  then show ?thesis by simp
next
  fix ms :: "LocalMetrics list"
  assume "poll a env s = (s\<lparr>current_step := Max (step ` set ms)\<rparr>, [Dht_get], Inl ZeroDivisionError)"
  then show ?thesis by simp
next
  fix d ms l cb
  assume h: "dht_get env = Inr (Some d)" "parse_all d = Inr ms" "ms \<noteq> []"
    "Max (step ` set ms) \<noteq> current_step s" "sum_list (map mini_steps ms) \<noteq> 0"
    "l = sum_list (map loss ms) / real_of_int (sum_list (map mini_steps ms))"
    and cb: "cb = checkpoint_block a env
                  (s\<lparr>current_step := Max (step ` set ms),
                     monitor_metrics :=
                       Some \<lparr>mm_loss = l, mm_alive_peers = int (length ms),
                             mm_samples = sum_list (map samples_accumulated ms),
                             mm_performance = sum_list (map samples_per_second ms)\<rparr>\<rparr>) l"
    and p: "poll a env s =
             (fst cb, Dht_get # Logger_info_step (Max (step ` set ms)) l # fst (snd cb), snd (snd cb))"
  show ?thesis
  proof (cases "store_checkpoints a \<and> checkpoint_handler s \<noteq> None")
    case False
    then have "checkpoint_handler (fst cb) = checkpoint_handler s \<and> fst (snd cb) = []"
      by (auto simp add: cb checkpoint_block_proj)
    then show ?thesis using p by simp
  next
    case True
    then obtain h' where h': "checkpoint_handler s = Some h'" and sc: "store_checkpoints a" by auto
    have "current_step (fst (poll a env s)) = Max (step ` set ms)"
      using p h' sc by (simp add: cb checkpoint_block_proj)
    moreover have "checkpoint_handler (fst (poll a env s)) =
        Some (fst (coordinate env h' (Max (step ` set ms)) l))"
      using p h' sc by (simp add: cb checkpoint_block_proj)
    moreover have "fst (snd (poll a env s)) =
        Dht_get # Logger_info_step (Max (step ` set ms)) l
          # fst (snd (coordinate env h' (Max (step ` set ms)) l))"
      using p h' sc by (simp add: cb checkpoint_block_proj)
    moreover have "snd (snd (poll a env s)) = snd (snd (coordinate env h' (Max (step ` set ms)) l))"
      using p h' sc by (simp add: cb checkpoint_block_proj)
    ultimately show ?thesis using h h' sc by blast
  qed
qed

lemma coordinate_load:
  "Load_state_from_peers \<in> set (fst (snd (coordinate env h c l))) \<longleftrightarrow>
     (\<exists>k. ckpt_save_checkpoint_step_interval h = Some k \<and> k \<le> c - previous_step h)"
  by (auto simp add: coordinate_unfold split: option.splits)

lemma coordinate_previous_step:
  "previous_step (fst (coordinate env h c l)) =
     (if Load_state_from_peers \<in> set (fst (snd (coordinate env h c l)))
         \<and> load_state_from_peers env = None
      then c else previous_step h)"
  by (auto simp add: coordinate_unfold split: option.splits)

lemma coordinate_time:
  "Time_time \<in> set (fst (snd (coordinate env h c l))) \<longleftrightarrow>
     Load_state_from_peers \<in> set (fst (snd (coordinate env h c l)))
     \<and> load_state_from_peers env = None"
  by (auto simp add: coordinate_unfold split: option.splits)

lemma coordinate_time_adjacent:
  "Time_time \<in> set (fst (snd (coordinate env h c l))) \<Longrightarrow>
     \<exists>post. fst (snd (coordinate env h c l)) =
       [Logger_info_saving, Load_state_from_peers, Time_time] @ post"
  by (auto simp add: coordinate_unfold split: option.splits if_splits)

lemma coordinate_upload:
  "Save_pretrained \<in> set (fst (snd (coordinate env h c l))) \<longleftrightarrow>
     Time_time \<in> set (fst (snd (coordinate env h c l)))
     \<and> (\<exists>u. ckpt_upload_interval h = Some u \<and> u \<le> time_at_check env - previous_timestamp h)"
  by (auto simp add: coordinate_unfold split: option.splits)

lemma coordinate_pull_fails:
  "Load_state_from_peers \<in> set (fst (snd (coordinate env h c l))) \<Longrightarrow>
   load_state_from_peers env = Some e \<Longrightarrow> coordinate env h c l
     = (h, [Logger_info_saving, Load_state_from_peers], Inl e)"
  by (auto simp add: coordinate_unfold split: option.splits if_splits)

lemma coordinate_upload_fails:
  "Save_pretrained \<in> set (fst (snd (coordinate env h c l))) \<Longrightarrow>
   save_pretrained env = Some e \<Longrightarrow>
     previous_timestamp (fst (coordinate env h c l)) = previous_timestamp h
     \<and> snd (snd (coordinate env h c l)) = Inl e"
  by (auto simp add: coordinate_unfold split: option.splits if_splits)

lemma tick_coordinated:
  assumes "ev \<in> set (fst (snd (tick a env s)))" and "checkpoint_event ev"
  shows "\<exists>d ms h L l. dht_get env = Inr (Some d) \<and> parse_all d = Inr ms \<and> ms \<noteq> []
         \<and> L = Max (step ` set ms) \<and> L \<noteq> current_step s
         \<and> sum_list (map mini_steps ms) \<noteq> 0
         \<and> l = sum_list (map loss ms) / real_of_int (sum_list (map mini_steps ms))
         \<and> store_checkpoints a \<and> checkpoint_handler s = Some h
         \<and> current_step (fst (poll a env s)) = L
         \<and> checkpoint_handler (fst (poll a env s)) = Some (fst (coordinate env h L l))
         \<and> fst (snd (poll a env s)) =
             Dht_get # Logger_info_step L l # fst (snd (coordinate env h L l))
         \<and> snd (snd (poll a env s)) = snd (snd (coordinate env h L l))"
proof -
  from assms have m: "ev \<in> set (fst (snd (poll a env s)))"
    by (simp add: tick_trace_checkpoint_event)
  from poll_reaches[of a env s] show ?thesis
  proof (elim disjE)
    assume "checkpoint_handler (fst (poll a env s)) = checkpoint_handler s
      \<and> fst (snd (poll a env s)) = [Dht_get]"
    with m assms(2) show ?thesis by auto
  next
    assume "\<exists>L l. checkpoint_handler (fst (poll a env s)) = checkpoint_handler s
         \<and> fst (snd (poll a env s)) = [Dht_get, Logger_info_step L l]"
    with m assms(2) show ?thesis by auto
  qed
qed

lemma tick_reaches_coordinator:
  assumes "dht_get env = Inr (Some d)" and "parse_all d = Inr ms"
    and "Max (step ` set ms) \<noteq> current_step s" and "sum_list (map mini_steps ms) \<noteq> 0"
    and "store_checkpoints a" and "checkpoint_handler s = Some h"
  shows "fst (snd (poll a env s)) =
           Dht_get # Logger_info_step (Max (step ` set ms))
               (sum_list (map loss ms) / real_of_int (sum_list (map mini_steps ms)))
             # fst (snd (coordinate env h (Max (step ` set ms))
                 (sum_list (map loss ms) / real_of_int (sum_list (map mini_steps ms)))))"
    and "checkpoint_handler (fst (poll a env s)) =
           Some (fst (coordinate env h (Max (step ` set ms))
                 (sum_list (map loss ms) / real_of_int (sum_list (map mini_steps ms)))))"
proof -
  from assms(4) have ne: "ms \<noteq> []" by auto
  note pd = poll_decoded[OF assms(1,2) ne, of a s]
  show "fst (snd (poll a env s)) =
           Dht_get # Logger_info_step (Max (step ` set ms))
               (sum_list (map loss ms) / real_of_int (sum_list (map mini_steps ms)))
             # fst (snd (coordinate env h (Max (step ` set ms))
                 (sum_list (map loss ms) / real_of_int (sum_list (map mini_steps ms)))))"
    using assms(3-6) by (simp add: pd new_step_unfold checkpoint_block_proj case_prod_unfold)
  show "checkpoint_handler (fst (poll a env s)) =
           Some (fst (coordinate env h (Max (step ` set ms))
                 (sum_list (map loss ms) / real_of_int (sum_list (map mini_steps ms)))))"
    using assms(3-6) by (simp add: pd new_step_unfold checkpoint_block_proj case_prod_unfold)
qed

lemmas eval_ckpt_defs = eval_defs coordinate_def is_time_to_save_state_def save_state_def
  is_time_to_upload_def upload_checkpoint_def checkpointing_args_def handler_at_def state_at_def








lemma all_zero_Max:
  assumes "ms \<noteq> []" and "list_all (\<lambda>item. step item = 0) ms"
  shows "Max (step ` set ms) = 0"
proof -
  from assms have "step ` set ms = {0}" by (cases ms) (auto simp add: list_all_iff)
  then show ?thesis by simp
qed

lemma tick_only_step_zero:
  assumes "only_step_zero env" and "current_step s = 0" and "monitor_metrics s = None"
  shows "fst (tick a env s) = s"
    and "fst (snd (tick a env s)) = [Dht_get]
         \<or> fst (snd (tick a env s)) = [Dht_get, Time_sleep (refresh_period a), Hmp_step 0 None]"
proof -
  have "fst (poll a env s) = s \<and> fst (snd (poll a env s)) = [Dht_get]"
  proof (cases "dht_get env")
    case (Inl e)
    then show ?thesis by (simp add: poll_def)
  next
    case (Inr x)
    show ?thesis
    proof (cases x)
      case None
      with Inr show ?thesis by (simp add: poll_def)
    next
      case (Some d)
      show ?thesis
      proof (cases "parse_all d")
        case (Inl e)
        with Inr Some show ?thesis by (simp add: poll_def)
      next
        case ms: (Inr ms)
        show ?thesis
        proof (cases "ms = []")
          case True
          with Inr Some ms show ?thesis by (simp add: poll_def)
        next
          case False
          from assms(1) Inr Some ms have "list_all (\<lambda>item. step item = 0) ms"
            by (simp add: only_step_zero_def)
          with False have "Max (step ` set ms) = 0" by (rule all_zero_Max)
          moreover have "dht_get env = Inr (Some d)" using Inr Some by simp
          ultimately show ?thesis using ms False assms(2) by (simp add: poll_decoded)
        qed
      qed
    qed
  qed
  then show "fst (tick a env s) = s"
    and "fst (snd (tick a env s)) = [Dht_get]
         \<or> fst (snd (tick a env s)) = [Dht_get, Time_sleep (refresh_period a), Hmp_step 0 None]"
    using assms(2,3) by (auto simp add: tick_proj split: sum.splits)
qed

lemma run_only_step_zero:
  assumes "list_all only_step_zero envs" and "current_step s = 0" and "monitor_metrics s = None"
  shows "fst (run a s envs) = s
       \<and> set (fst (snd (run a s envs)))
           \<subseteq> {Dht_get, Time_sleep (refresh_period a), Hmp_step 0 None}"
  using assms
proof (induction envs)
  case Nil
  then show ?case by simp
next
  case (Cons env envs)
  then have z: "only_step_zero env" and rest: "list_all only_step_zero envs" by simp_all
  note t = tick_only_step_zero[OF z Cons.prems(2,3), of a]
  obtain s' evs r where tk: "tick a env s = (s', evs, r)" by (cases "tick a env s" rule: prod_cases3)
  with t have s': "s' = s"
    and evs: "set evs \<subseteq> {Dht_get, Time_sleep (refresh_period a), Hmp_step 0 None}" by auto
  show ?case
  proof (cases r)
    case (Inl e)
    with tk s' evs show ?thesis by simp
  next
    case (Inr u)
    from Cons.IH[OF rest Cons.prems(2,3)] tk s' evs Inr show ?thesis
      by (auto simp add: case_prod_unfold)
  qed
qed

lemma tick_snapshot_differs:
  "snapshots (fst (snd (tick a env s))) = []
   \<or> (\<exists>L l. snapshots (fst (snd (tick a env s))) = [(L, l)] \<and> L \<noteq> current_step s)"
  using poll_snapshots[of a env s] by (auto simp add: tick_snapshots)

lemma tick_quiet_keeps_step:
  assumes "snapshots (fst (snd (tick a env s))) = []" and "snd (snd (tick a env s)) = Inr u"
  shows "current_step (fst (tick a env s)) = current_step s"
proof -
  from assms(1) have q: "snapshots (fst (snd (poll a env s))) = []" by (simp add: tick_snapshots)
  from assms(2) have r: "\<exists>u. snd (snd (poll a env s)) = Inr u"
    by (cases "snd (snd (poll a env s))") (simp_all add: tick_proj)
  from poll_shape[of a env s] q r have "fst (poll a env s) = s"
    by (elim disjE exE conjE) (simp_all add: snapshots_simps)
  then show ?thesis by (simp add: tick_fst)
qed

lemma run_first_snapshot:
  "snapshots (fst (snd (run a s envs))) = sn # rest \<Longrightarrow> fst sn \<noteq> current_step s"
proof (induction envs arbitrary: s)
  case Nil
  then show ?case by (simp add: snapshots_simps)
next
  case (Cons env envs)
  obtain s' evs r where tk: "tick a env s = (s', evs, r)" by (cases "tick a env s" rule: prod_cases3)
  from tick_snapshot_differs[of a env s] tk
  have d: "snapshots evs = [] \<or> (\<exists>L l. snapshots evs = [(L, l)] \<and> L \<noteq> current_step s)" by simp
  show ?case
  proof (cases r)
    case (Inl e)
    with tk Cons.prems d show ?thesis by auto
  next
    case (Inr u)
    obtain s'' evs' r' where rn: "run a s' envs = (s'', evs', r')"
      by (cases "run a s' envs" rule: prod_cases3)
    with tk Inr Cons.prems have sn: "snapshots evs @ snapshots evs' = sn # rest"
      by (simp add: snapshots_append)
    show ?thesis
    proof (cases "snapshots evs = []")
      case True
      with tk Inr tick_quiet_keeps_step[of a env s u] have "current_step s' = current_step s" by simp
      moreover from sn True rn have "snapshots (fst (snd (run a s' envs))) = sn # rest" by simp
      ultimately show ?thesis using Cons.IH[of s'] by simp
    next
      case False
      with d sn show ?thesis by auto
    qed
  qed
qed

lemma quiet_trace:
  "set evs \<subseteq> {Dht_get, Time_sleep d, Hmp_step 0 None} \<Longrightarrow>
     snapshots evs = [] \<and> \<not> list_ex checkpoint_event evs"
  by (induction evs) (auto simp add: snapshots_simps)

section \<open>The claims\<close>

text \<open>
  Claim C1 as stated fails: from the initial state, records at step 5 and then records at
  step 3 give two snapshots, the second with a maximum step below the previous global step.
\<close>

theorem C1_counterexample:
  "snapshots (fst (snd (run default_args (initial_state default_args 0)
      [answering (Some [(''p1'', Payload (peer_metrics 5 1 1))]),
       answering (Some [(''p1'', Payload (peer_metrics 3 1 1))])]))) = [(5, 1), (3, 1)]
   \<and> \<not> 5 < Max (step ` set [peer_metrics 3 1 1])"
  by (simp add: eval_defs snapshots_append)

text \<open>
  Claim C1, as amended. For every iteration with a non-empty decoded peer-record mapping,
  a snapshot is logged only if the maximum peer step differs from the previous global
  step (it may be lower as well as higher); if the maximum equals the previous global
  step, no snapshot is logged and the global step and the stored metrics are unchanged.
  The claim as stated, that the maximum must have strictly increased, fails: after a
  snapshot at step 5, records at step 3 produce a snapshot at step 3.
\<close>

theorem C1_snapshot_only_if_step_differs:
  assumes "dht_get env = Inr (Some d)" and "parse_all d = Inr ms" and "ms \<noteq> []"
  shows "(snapshots (fst (snd (tick a env s))) \<noteq> [] \<longrightarrow> Max (step ` set ms) \<noteq> current_step s)
       \<and> (Max (step ` set ms) = current_step s \<longrightarrow>
            snapshots (fst (snd (tick a env s))) = []
            \<and> current_step (fst (tick a env s)) = current_step s
            \<and> monitor_metrics (fst (tick a env s)) = monitor_metrics s)"
proof -
  have tie: "snapshots (fst (snd (tick a env s))) = []
       \<and> current_step (fst (tick a env s)) = current_step s
       \<and> monitor_metrics (fst (tick a env s)) = monitor_metrics s"
    if "Max (step ` set ms) = current_step s"
    using that assms by (simp add: tick_snapshots tick_fst poll_decoded snapshots_simps)
  then show ?thesis by blast
qed

theorem C1_snapshot_only_if_step_differs_witness:
  "dht_get (answering (Some [(''p1'', Payload (peer_metrics 5 1 2)), (''p2'', Payload (peer_metrics 5 3 2))]))
     = Inr (Some [(''p1'', Payload (peer_metrics 5 1 2)), (''p2'', Payload (peer_metrics 5 3 2))])
   \<and> parse_all [(''p1'', Payload (peer_metrics 5 1 2)), (''p2'', Payload (peer_metrics 5 3 2))]
     = Inr [peer_metrics 5 1 2, peer_metrics 5 3 2]
   \<and> [peer_metrics 5 1 2, peer_metrics 5 3 2] \<noteq> []
   \<and> Max (step ` set [peer_metrics 5 1 2, peer_metrics 5 3 2])
     = current_step ((initial_state default_args 0)\<lparr>current_step := 5\<rparr>)
   \<and> snapshots (fst (snd (tick default_args
        (answering (Some [(''p1'', Payload (peer_metrics 5 1 2)), (''p2'', Payload (peer_metrics 5 3 2))]))
        ((initial_state default_args 0)\<lparr>current_step := 5\<rparr>)))) = []
   \<and> current_step (fst (tick default_args
        (answering (Some [(''p1'', Payload (peer_metrics 5 1 2)), (''p2'', Payload (peer_metrics 5 3 2))]))
        ((initial_state default_args 0)\<lparr>current_step := 5\<rparr>))) = 5"
proof -
  let ?d = "[(''p1'', Payload (peer_metrics 5 1 2)), (''p2'', Payload (peer_metrics 5 3 2))]"
  let ?ms = "[peer_metrics 5 1 2, peer_metrics 5 3 2]"
  let ?s = "(initial_state default_args 0)\<lparr>current_step := 5\<rparr>"
  have h1: "dht_get (answering (Some ?d)) = Inr (Some ?d)" by (simp add: answering_def)
  have h2: "parse_all ?d = Inr ?ms" by simp
  have h3: "?ms \<noteq> []" by simp
  have m: "Max (step ` set ?ms) = current_step ?s" by (simp add: peer_metrics_def)
  have c: "current_step ?s = 5" by simp
  from C1_snapshot_only_if_step_differs[OF h1 h2 h3, of default_args ?s] m h1 h2 h3 c
  show ?thesis by simp
qed


text \<open>
  Claim C2. Whenever the decoded records pass the step check and their total
  \<open>mini_steps\<close> is positive, the snapshot logged carries the maximum step and the loss
  \<open>\<Sum>loss / \<Sum>mini_steps\<close>, so that loss times \<open>\<Sum>mini_steps\<close> is \<open>\<Sum>loss\<close>, and the stored
  metrics count the records. Scenario A (steps 5 and 5, losses 1 and 3, two mini-steps
  each, previous step 4) gives step 5, two alive peers and loss 1.
\<close>

theorem C2_aggregate_loss:
  assumes "dht_get env = Inr (Some d)" and "parse_all d = Inr ms"
    and "Max (step ` set ms) \<noteq> current_step s"
    and "sum_list (map mini_steps ms) > 0"
  shows "snapshots (fst (snd (tick a env s))) =
           [(Max (step ` set ms), sum_list (map loss ms) / real_of_int (sum_list (map mini_steps ms)))]
       \<and> sum_list (map loss ms) / real_of_int (sum_list (map mini_steps ms))
           * real_of_int (sum_list (map mini_steps ms)) = sum_list (map loss ms)
       \<and> monitor_metrics (fst (tick a env s)) =
           Some \<lparr>mm_loss = sum_list (map loss ms) / real_of_int (sum_list (map mini_steps ms)),
                 mm_alive_peers = int (length ms),
                 mm_samples = sum_list (map samples_accumulated ms),
                 mm_performance = sum_list (map samples_per_second ms)\<rparr>"
proof -
  from assms(4) have ne: "ms \<noteq> []" and nz: "sum_list (map mini_steps ms) \<noteq> 0" by auto
  note pd = poll_decoded[OF assms(1,2) ne, of a s]
  have "snapshots (fst (snd (tick a env s))) =
           [(Max (step ` set ms), sum_list (map loss ms) / real_of_int (sum_list (map mini_steps ms)))]"
    using assms(3) nz
    by (simp add: tick_snapshots pd new_step_unfold case_prod_unfold snapshots_simps
        checkpoint_block_snapshots)
  moreover have "monitor_metrics (fst (tick a env s)) =
           Some \<lparr>mm_loss = sum_list (map loss ms) / real_of_int (sum_list (map mini_steps ms)),
                 mm_alive_peers = int (length ms),
                 mm_samples = sum_list (map samples_accumulated ms),
                 mm_performance = sum_list (map samples_per_second ms)\<rparr>"
    using assms(3) nz
    by (simp add: tick_fst pd new_step_unfold case_prod_unfold checkpoint_block_state)
  moreover have "sum_list (map loss ms) / real_of_int (sum_list (map mini_steps ms))
           * real_of_int (sum_list (map mini_steps ms)) = sum_list (map loss ms)"
    using nz by simp
  ultimately show ?thesis by simp
qed

theorem C2_aggregate_loss_witness:
  "dht_get (answering (Some [(''p1'', Payload (peer_metrics 5 1 2)), (''p2'', Payload (peer_metrics 5 3 2))]))
     = Inr (Some [(''p1'', Payload (peer_metrics 5 1 2)), (''p2'', Payload (peer_metrics 5 3 2))])
   \<and> parse_all [(''p1'', Payload (peer_metrics 5 1 2)), (''p2'', Payload (peer_metrics 5 3 2))]
     = Inr [peer_metrics 5 1 2, peer_metrics 5 3 2]
   \<and> Max (step ` set [peer_metrics 5 1 2, peer_metrics 5 3 2])
       \<noteq> current_step ((initial_state default_args 0)\<lparr>current_step := 4\<rparr>)
   \<and> sum_list (map mini_steps [peer_metrics 5 1 2, peer_metrics 5 3 2]) > 0
   \<and> snapshots (fst (snd (tick default_args
        (answering (Some [(''p1'', Payload (peer_metrics 5 1 2)), (''p2'', Payload (peer_metrics 5 3 2))]))
        ((initial_state default_args 0)\<lparr>current_step := 4\<rparr>)))) = [(5, 1)]
   \<and> map_option mm_alive_peers (monitor_metrics (fst (tick default_args
        (answering (Some [(''p1'', Payload (peer_metrics 5 1 2)), (''p2'', Payload (peer_metrics 5 3 2))]))
        ((initial_state default_args 0)\<lparr>current_step := 4\<rparr>)))) = Some 2
   \<and> map_option mm_loss (monitor_metrics (fst (tick default_args
        (answering (Some [(''p1'', Payload (peer_metrics 5 1 2)), (''p2'', Payload (peer_metrics 5 3 2))]))
        ((initial_state default_args 0)\<lparr>current_step := 4\<rparr>)))) = Some 1"
proof -
  let ?d = "[(''p1'', Payload (peer_metrics 5 1 2)), (''p2'', Payload (peer_metrics 5 3 2))]"
  let ?ms = "[peer_metrics 5 1 2, peer_metrics 5 3 2]"
  let ?s = "(initial_state default_args 0)\<lparr>current_step := 4\<rparr>"
  have h1: "dht_get (answering (Some ?d)) = Inr (Some ?d)" by (simp add: answering_def)
  have h2: "parse_all ?d = Inr ?ms" by simp
  have m: "Max (step ` set ?ms) = 5" by (simp add: peer_metrics_def)
  have h3: "Max (step ` set ?ms) \<noteq> current_step ?s" by (simp add: peer_metrics_def)
  have h4: "sum_list (map mini_steps ?ms) > 0" by (simp add: peer_metrics_def)
  have l: "sum_list (map loss ?ms) / real_of_int (sum_list (map mini_steps ?ms)) = 1"
    by (simp add: peer_metrics_def)
  from C2_aggregate_loss[OF h1 h2 h3 h4, of default_args] m h1 h2 h3 h4 l
  show ?thesis by simp
qed


text \<open>
  Claim C3 as stated fails: the divide-by-zero branch is reached by one record with step 1
  and no mini-steps.
\<close>

theorem C3_counterexample:
  "sum_list (map mini_steps [peer_metrics 1 1 0]) = 0
   \<and> tick default_args (answering (Some [(''p1'', Payload (peer_metrics 1 1 0))]))
        (initial_state default_args 0)
     = ((initial_state default_args 0)\<lparr>current_step := 1\<rparr>, [Dht_get], Inl ZeroDivisionError)"
  by (simp add: eval_defs)

text \<open>
  Claim C3, as amended. When the step check passes and the records' total \<open>mini_steps\<close>
  is zero, no aggregate loss is produced and no snapshot is logged, but not because of a
  guard: the division raises \<open>ZeroDivisionError\<close>, which ends the iteration right after
  the global step has been set to the maximum step.
\<close>

theorem C3_zero_mini_steps_raises:
  assumes "dht_get env = Inr (Some d)" and "parse_all d = Inr ms" and "ms \<noteq> []"
    and "Max (step ` set ms) \<noteq> current_step s"
    and "sum_list (map mini_steps ms) = 0"
  shows "tick a env s = (s\<lparr>current_step := Max (step ` set ms)\<rparr>, [Dht_get], Inl ZeroDivisionError)"
  using assms by (simp add: tick_def poll_decoded new_step_unfold)

theorem C3_zero_mini_steps_raises_witness:
  "dht_get (answering (Some [(''p1'', Payload (peer_metrics 2 1 0)), (''p2'', Payload (peer_metrics 2 3 0))]))
     = Inr (Some [(''p1'', Payload (peer_metrics 2 1 0)), (''p2'', Payload (peer_metrics 2 3 0))])
   \<and> parse_all [(''p1'', Payload (peer_metrics 2 1 0)), (''p2'', Payload (peer_metrics 2 3 0))]
     = Inr [peer_metrics 2 1 0, peer_metrics 2 3 0]
   \<and> [peer_metrics 2 1 0, peer_metrics 2 3 0] \<noteq> []
   \<and> Max (step ` set [peer_metrics 2 1 0, peer_metrics 2 3 0])
       \<noteq> current_step (initial_state default_args 0)
   \<and> sum_list (map mini_steps [peer_metrics 2 1 0, peer_metrics 2 3 0]) = 0
   \<and> tick default_args
        (answering (Some [(''p1'', Payload (peer_metrics 2 1 0)), (''p2'', Payload (peer_metrics 2 3 0))]))
        (initial_state default_args 0)
     = ((initial_state default_args 0)\<lparr>current_step := 2\<rparr>, [Dht_get], Inl ZeroDivisionError)"
proof -
  let ?d = "[(''p1'', Payload (peer_metrics 2 1 0)), (''p2'', Payload (peer_metrics 2 3 0))]"
  let ?ms = "[peer_metrics 2 1 0, peer_metrics 2 3 0]"
  let ?s = "initial_state default_args 0"
  have h1: "dht_get (answering (Some ?d)) = Inr (Some ?d)" by (simp add: answering_def)
  have h2: "parse_all ?d = Inr ?ms" by simp
  have h3: "?ms \<noteq> []" by simp
  have m: "Max (step ` set ?ms) = 2" by (simp add: peer_metrics_def)
  have h4: "Max (step ` set ?ms) \<noteq> current_step ?s"
    by (simp add: peer_metrics_def initial_state_def)
  have h5: "sum_list (map mini_steps ?ms) = 0" by (simp add: peer_metrics_def)
  from C3_zero_mini_steps_raises[OF h1 h2 h3 h4 h5, of default_args] m h1 h2 h3 h4 h5
  show ?thesis by simp
qed


text \<open>
  Claim C4. In any state of the loop, an iteration pulls the state from the peers only if
  the handler's step interval is set and \<open>current_step - previous_step\<close> has reached it;
  on an iteration that reaches the handler (new step, non-zero mini-steps, checkpoints
  enabled) the pull happens exactly when the difference has reached the interval, and
  after a pull that returns \<open>previous_step\<close> is the current step, otherwise it is
  unchanged. Scenario C: with interval 10 and \<open>previous_step = 0\<close>, step 9 triggers no
  pull and leaves the handler as it is, step 10 triggers one and \<open>previous_step\<close> becomes 10.
\<close>

theorem C4_save_cadence:
  "(Load_state_from_peers \<in> set (fst (snd (tick a env s))) \<longrightarrow>
      (\<exists>h k. checkpoint_handler s = Some h \<and> ckpt_save_checkpoint_step_interval h = Some k
         \<and> k \<le> current_step (fst (tick a env s)) - previous_step h))
   \<and> (dht_get env = Inr (Some d) \<and> parse_all d = Inr ms
        \<and> Max (step ` set ms) \<noteq> current_step s \<and> sum_list (map mini_steps ms) \<noteq> 0
        \<and> store_checkpoints a \<and> checkpoint_handler s = Some h
        \<and> ckpt_save_checkpoint_step_interval h = Some k \<longrightarrow>
        (Load_state_from_peers \<in> set (fst (snd (tick a env s)))
           \<longleftrightarrow> k \<le> Max (step ` set ms) - previous_step h)
        \<and> map_option previous_step (checkpoint_handler (fst (tick a env s))) =
            Some (if k \<le> Max (step ` set ms) - previous_step h \<and> load_state_from_peers env = None
                  then Max (step ` set ms) else previous_step h))
   \<and> (ckpt_save_checkpoint_step_interval h0 = Some 10 \<and> previous_step h0 = 0 \<longrightarrow>
        Load_state_from_peers \<notin> set (fst (snd (coordinate env h0 9 l)))
        \<and> fst (coordinate env h0 9 l) = h0
        \<and> Load_state_from_peers \<in> set (fst (snd (coordinate env h0 10 l)))
        \<and> (load_state_from_peers env = None \<longrightarrow> previous_step (fst (coordinate env h0 10 l)) = 10))"
proof (intro conjI impI)
  assume m: "Load_state_from_peers \<in> set (fst (snd (tick a env s)))"
  from tick_coordinated[OF m] obtain h L l where
    h: "checkpoint_handler s = Some h" and L: "current_step (fst (poll a env s)) = L"
    and tr: "fst (snd (poll a env s)) = Dht_get # Logger_info_step L l # fst (snd (coordinate env h L l))"
    by auto
  from m have "Load_state_from_peers \<in> set (fst (snd (poll a env s)))"
    by (simp add: tick_trace_checkpoint_event)
  with tr have "Load_state_from_peers \<in> set (fst (snd (coordinate env h L l)))" by simp
  then obtain k where "ckpt_save_checkpoint_step_interval h = Some k" "k \<le> L - previous_step h"
    by (auto simp add: coordinate_load)
  with h L show "\<exists>h k. checkpoint_handler s = Some h \<and> ckpt_save_checkpoint_step_interval h = Some k
         \<and> k \<le> current_step (fst (tick a env s)) - previous_step h"
    by (simp add: tick_fst)
next
  assume a: "dht_get env = Inr (Some d) \<and> parse_all d = Inr ms
        \<and> Max (step ` set ms) \<noteq> current_step s \<and> sum_list (map mini_steps ms) \<noteq> 0
        \<and> store_checkpoints a \<and> checkpoint_handler s = Some h
        \<and> ckpt_save_checkpoint_step_interval h = Some k"
  then have r: "fst (snd (poll a env s)) =
           Dht_get # Logger_info_step (Max (step ` set ms))
               (sum_list (map loss ms) / real_of_int (sum_list (map mini_steps ms)))
             # fst (snd (coordinate env h (Max (step ` set ms))
                 (sum_list (map loss ms) / real_of_int (sum_list (map mini_steps ms)))))"
    by (intro tick_reaches_coordinator(1)) auto
  from a have r2: "checkpoint_handler (fst (poll a env s)) =
           Some (fst (coordinate env h (Max (step ` set ms))
                 (sum_list (map loss ms) / real_of_int (sum_list (map mini_steps ms)))))"
    by (intro tick_reaches_coordinator(2)) auto
  show "Load_state_from_peers \<in> set (fst (snd (tick a env s)))
           \<longleftrightarrow> k \<le> Max (step ` set ms) - previous_step h"
    using a by (simp add: tick_trace_checkpoint_event r coordinate_load)
  show "map_option previous_step (checkpoint_handler (fst (tick a env s))) =
            Some (if k \<le> Max (step ` set ms) - previous_step h \<and> load_state_from_peers env = None
                  then Max (step ` set ms) else previous_step h)"
    using a by (simp add: tick_fst r2 coordinate_previous_step coordinate_load)
next
  assume c: "ckpt_save_checkpoint_step_interval h0 = Some 10 \<and> previous_step h0 = 0"
  then show "Load_state_from_peers \<notin> set (fst (snd (coordinate env h0 9 l)))"
    by (simp add: coordinate_load)
  from c show "fst (coordinate env h0 9 l) = h0" by (simp add: coordinate_unfold)
  from c show "Load_state_from_peers \<in> set (fst (snd (coordinate env h0 10 l)))"
    by (simp add: coordinate_load)
  assume "load_state_from_peers env = None"
  with c show "previous_step (fst (coordinate env h0 10 l)) = 10"
    by (simp add: coordinate_previous_step coordinate_load)
qed

theorem C4_save_cadence_witness:
  "dht_get (answering (Some [(''p1'', Payload (peer_metrics 10 1 1))]))
     = Inr (Some [(''p1'', Payload (peer_metrics 10 1 1))])
   \<and> parse_all [(''p1'', Payload (peer_metrics 10 1 1))] = Inr [peer_metrics 10 1 1]
   \<and> Max (step ` set [peer_metrics 10 1 1]) \<noteq> current_step (state_at 9 (handler_at 10 3600 0 0))
   \<and> sum_list (map mini_steps [peer_metrics 10 1 1]) \<noteq> 0
   \<and> store_checkpoints (checkpointing_args 10 3600)
   \<and> checkpoint_handler (state_at 9 (handler_at 10 3600 0 0)) = Some (handler_at 10 3600 0 0)
   \<and> ckpt_save_checkpoint_step_interval (handler_at 10 3600 0 0) = Some 10
   \<and> previous_step (handler_at 10 3600 0 0) = 0
   \<and> load_state_from_peers (answering (Some [(''p1'', Payload (peer_metrics 10 1 1))])) = None
   \<and> Load_state_from_peers \<in> set (fst (snd (tick (checkpointing_args 10 3600)
        (answering (Some [(''p1'', Payload (peer_metrics 10 1 1))]))
        (state_at 9 (handler_at 10 3600 0 0)))))
   \<and> map_option previous_step (checkpoint_handler (fst (tick (checkpointing_args 10 3600)
        (answering (Some [(''p1'', Payload (peer_metrics 10 1 1))]))
        (state_at 9 (handler_at 10 3600 0 0))))) = Some 10
   \<and> Load_state_from_peers \<notin> set (fst (snd (coordinate
        (answering (Some [(''p1'', Payload (peer_metrics 10 1 1))])) (handler_at 10 3600 0 0) 9 1)))
   \<and> previous_step (fst (coordinate
        (answering (Some [(''p1'', Payload (peer_metrics 10 1 1))])) (handler_at 10 3600 0 0) 10 1)) = 10"
proof -
  let ?d = "[(''p1'', Payload (peer_metrics 10 1 1))]"
  let ?ms = "[peer_metrics 10 1 1]"
  let ?h = "handler_at 10 3600 0 0"
  let ?s = "state_at 9 ?h"
  let ?env = "answering (Some ?d)"
  let ?a = "checkpointing_args 10 3600"
  have h1: "dht_get ?env = Inr (Some ?d)" by (simp add: answering_def)
  have h2: "parse_all ?d = Inr ?ms" by simp
  have m: "Max (step ` set ?ms) = 10" by (simp add: peer_metrics_def)
  have h3: "Max (step ` set ?ms) \<noteq> current_step ?s" by (simp add: peer_metrics_def state_at_def)
  have h4: "sum_list (map mini_steps ?ms) \<noteq> 0" by (simp add: peer_metrics_def)
  have h5: "store_checkpoints ?a" by (simp add: checkpointing_args_def)
  have h6: "checkpoint_handler ?s = Some ?h" by (simp add: state_at_def)
  have h7: "ckpt_save_checkpoint_step_interval ?h = Some 10" by (simp add: handler_at_def)
  have h8: "previous_step ?h = 0" by (simp add: handler_at_def)
  have h9: "load_state_from_peers ?env = None" by (simp add: answering_def)
  from C4_save_cadence[where a="?a" and env="?env" and s="?s" and d="?d" and ms="?ms"
      and h="?h" and k=10 and ?h0.0="?h" and l=1]
    h1 h2 h3 h4 h5 h6 h7 h8 h9 m
  show ?thesis by simp
qed

text \<open>
  Claim C5. In any iteration the clock of the upload check is read only right after
  \<open>load_state_from_peers\<close> of the same iteration has returned normally, and the upload
  (\<open>save_pretrained\<close>) happens exactly when that check is reached with an upload interval
  set and \<open>now - previous_timestamp\<close> at least the interval.
\<close>

theorem C5_upload_cadence:
  "(Time_time \<in> set (fst (snd (tick a env s))) \<longrightarrow>
      load_state_from_peers env = None
      \<and> (\<exists>pre post. fst (snd (tick a env s)) = pre @ [Load_state_from_peers, Time_time] @ post
            \<and> Time_time \<notin> set pre))
   \<and> (Save_pretrained \<in> set (fst (snd (tick a env s))) \<longleftrightarrow>
        Time_time \<in> set (fst (snd (tick a env s)))
        \<and> (\<exists>h u. checkpoint_handler s = Some h \<and> ckpt_upload_interval h = Some u
              \<and> u \<le> time_at_check env - previous_timestamp h))"
proof (intro conjI impI)
  assume m: "Time_time \<in> set (fst (snd (tick a env s)))"
  from tick_coordinated[OF m] obtain h L l where
    tr: "fst (snd (poll a env s)) = Dht_get # Logger_info_step L l # fst (snd (coordinate env h L l))"
    by auto
  from m have "Time_time \<in> set (fst (snd (poll a env s)))"
    by (simp add: tick_trace_checkpoint_event)
  with tr have c: "Time_time \<in> set (fst (snd (coordinate env h L l)))" by simp
  then show "load_state_from_peers env = None" by (simp add: coordinate_time)
  from coordinate_time_adjacent[OF c] obtain post where
    p: "fst (snd (coordinate env h L l)) = [Logger_info_saving, Load_state_from_peers, Time_time] @ post"
    by blast
  obtain rest where t: "fst (snd (tick a env s)) = fst (snd (poll a env s)) @ rest"
    using tick_trace_extends by blast
  have "fst (snd (tick a env s)) =
      [Dht_get, Logger_info_step L l, Logger_info_saving] @ [Load_state_from_peers, Time_time] @ (post @ rest)
      \<and> Time_time \<notin> set [Dht_get, Logger_info_step L l, Logger_info_saving]"
    by (simp add: t tr p)
  then show "\<exists>pre post. fst (snd (tick a env s)) = pre @ [Load_state_from_peers, Time_time] @ post
            \<and> Time_time \<notin> set pre"
    by blast
next
  show "Save_pretrained \<in> set (fst (snd (tick a env s))) \<longleftrightarrow>
        Time_time \<in> set (fst (snd (tick a env s)))
        \<and> (\<exists>h u. checkpoint_handler s = Some h \<and> ckpt_upload_interval h = Some u
              \<and> u \<le> time_at_check env - previous_timestamp h)"
  proof
    assume m: "Save_pretrained \<in> set (fst (snd (tick a env s)))"
    from tick_coordinated[OF m] obtain h L l where h: "checkpoint_handler s = Some h" and
      tr: "fst (snd (poll a env s)) = Dht_get # Logger_info_step L l # fst (snd (coordinate env h L l))"
      by auto
    from m have "Save_pretrained \<in> set (fst (snd (poll a env s)))"
      by (simp add: tick_trace_checkpoint_event)
    with tr have "Save_pretrained \<in> set (fst (snd (coordinate env h L l)))" by simp
    then have "Time_time \<in> set (fst (snd (coordinate env h L l)))
       \<and> (\<exists>u. ckpt_upload_interval h = Some u \<and> u \<le> time_at_check env - previous_timestamp h)"
      by (simp add: coordinate_upload)
    with tr h show "Time_time \<in> set (fst (snd (tick a env s)))
        \<and> (\<exists>h u. checkpoint_handler s = Some h \<and> ckpt_upload_interval h = Some u
              \<and> u \<le> time_at_check env - previous_timestamp h)"
      by (simp add: tick_trace_checkpoint_event)
  next
    assume r: "Time_time \<in> set (fst (snd (tick a env s)))
        \<and> (\<exists>h u. checkpoint_handler s = Some h \<and> ckpt_upload_interval h = Some u
              \<and> u \<le> time_at_check env - previous_timestamp h)"
    then have m: "Time_time \<in> set (fst (snd (tick a env s)))" by simp
    from tick_coordinated[OF m] obtain h L l where h: "checkpoint_handler s = Some h" and
      tr: "fst (snd (poll a env s)) = Dht_get # Logger_info_step L l # fst (snd (coordinate env h L l))"
      by auto
    from m have "Time_time \<in> set (fst (snd (poll a env s)))"
      by (simp add: tick_trace_checkpoint_event)
    with tr have "Time_time \<in> set (fst (snd (coordinate env h L l)))" by simp
    with r h have "Save_pretrained \<in> set (fst (snd (coordinate env h L l)))"
      by (auto simp add: coordinate_upload)
    with tr show "Save_pretrained \<in> set (fst (snd (tick a env s)))"
      by (simp add: tick_trace_checkpoint_event)
  qed
qed

theorem C5_upload_cadence_witness:
  "Time_time \<in> set (fst (snd (tick (checkpointing_args 10 3600)
        ((answering (Some [(''p1'', Payload (peer_metrics 10 1 1))]))\<lparr>time_at_check := 4000\<rparr>)
        (state_at 9 (handler_at 10 3600 0 0)))))
   \<and> checkpoint_handler (state_at 9 (handler_at 10 3600 0 0)) = Some (handler_at 10 3600 0 0)
   \<and> ckpt_upload_interval (handler_at 10 3600 0 0) = Some 3600
   \<and> 3600 \<le> time_at_check ((answering (Some [(''p1'', Payload (peer_metrics 10 1 1))]))\<lparr>time_at_check := 4000\<rparr>)
        - previous_timestamp (handler_at 10 3600 0 0)
   \<and> load_state_from_peers
        ((answering (Some [(''p1'', Payload (peer_metrics 10 1 1))]))\<lparr>time_at_check := 4000\<rparr>) = None
   \<and> Save_pretrained \<in> set (fst (snd (tick (checkpointing_args 10 3600)
        ((answering (Some [(''p1'', Payload (peer_metrics 10 1 1))]))\<lparr>time_at_check := 4000\<rparr>)
        (state_at 9 (handler_at 10 3600 0 0)))))
   \<and> take 5 (fst (snd (tick (checkpointing_args 10 3600)
        ((answering (Some [(''p1'', Payload (peer_metrics 10 1 1))]))\<lparr>time_at_check := 4000\<rparr>)
        (state_at 9 (handler_at 10 3600 0 0)))))
      = [Dht_get, Logger_info_step 10 1, Logger_info_saving, Load_state_from_peers, Time_time]"
proof -
  let ?h = "handler_at 10 3600 0 0"
  let ?s = "state_at 9 ?h"
  let ?env = "(answering (Some [(''p1'', Payload (peer_metrics 10 1 1))]))\<lparr>time_at_check := 4000\<rparr>"
  let ?a = "checkpointing_args 10 3600"
  have tr: "fst (snd (tick ?a ?env ?s)) =
      [Dht_get, Logger_info_step 10 1, Logger_info_saving, Load_state_from_peers, Time_time,
       Save_pretrained, Time_time, Time_sleep 30,
       Hmp_step 10 (Some \<lparr>mm_loss = 1, mm_alive_peers = 1, mm_samples = 0, mm_performance = 0\<rparr>)]"
    by (simp add: eval_ckpt_defs)
  have h1: "Time_time \<in> set (fst (snd (tick ?a ?env ?s)))" by (simp add: tr)
  have h2: "checkpoint_handler ?s = Some ?h" by (simp add: state_at_def)
  have h3: "ckpt_upload_interval ?h = Some 3600" by (simp add: handler_at_def)
  have h4: "3600 \<le> time_at_check ?env - previous_timestamp ?h" by (simp add: handler_at_def)
  from C5_upload_cadence[where a="?a" and env="?env" and s="?s"] h1 h2 h3 h4
  have "load_state_from_peers ?env = None \<and> Save_pretrained \<in> set (fst (snd (tick ?a ?env ?s)))"
    by blast
  with h1 h2 h3 h4 tr show ?thesis by simp
qed

text \<open>
  Claim C6. If \<open>load_state_from_peers\<close> raises inside a save attempt, the handler (and so
  \<open>previous_step\<close>) is as it was before the iteration; if \<open>save_pretrained\<close> raises
  inside an upload attempt, \<open>previous_timestamp\<close> is as it was. In both cases the
  exception leaves the iteration.
\<close>

theorem C6_bookkeeping_unchanged_on_failure:
  "(Load_state_from_peers \<in> set (fst (snd (tick a env s))) \<and> load_state_from_peers env = Some e \<longrightarrow>
      checkpoint_handler (fst (tick a env s)) = checkpoint_handler s
      \<and> snd (snd (tick a env s)) = Inl e)
   \<and> (Save_pretrained \<in> set (fst (snd (tick a env s))) \<and> save_pretrained env = Some e \<longrightarrow>
      map_option previous_timestamp (checkpoint_handler (fst (tick a env s)))
        = map_option previous_timestamp (checkpoint_handler s)
      \<and> snd (snd (tick a env s)) = Inl e)"
proof (intro conjI impI)
  assume a: "Load_state_from_peers \<in> set (fst (snd (tick a env s))) \<and> load_state_from_peers env = Some e"
  then have m: "Load_state_from_peers \<in> set (fst (snd (tick a env s)))" by simp
  from tick_coordinated[OF m] obtain h L l where h: "checkpoint_handler s = Some h"
    and h': "checkpoint_handler (fst (poll a env s)) = Some (fst (coordinate env h L l))"
    and tr: "fst (snd (poll a env s)) = Dht_get # Logger_info_step L l # fst (snd (coordinate env h L l))"
    and r: "snd (snd (poll a env s)) = snd (snd (coordinate env h L l))"
    by auto
  from m have "Load_state_from_peers \<in> set (fst (snd (poll a env s)))"
    by (simp add: tick_trace_checkpoint_event)
  with tr have "Load_state_from_peers \<in> set (fst (snd (coordinate env h L l)))" by simp
  with a have c: "coordinate env h L l = (h, [Logger_info_saving, Load_state_from_peers], Inl e)"
    by (simp add: coordinate_pull_fails)
  show "checkpoint_handler (fst (tick a env s)) = checkpoint_handler s"
    using h h' c by (simp add: tick_fst)
  show "snd (snd (tick a env s)) = Inl e"
    using r c by (simp add: tick_proj)
next
  assume a: "Save_pretrained \<in> set (fst (snd (tick a env s))) \<and> save_pretrained env = Some e"
  then have m: "Save_pretrained \<in> set (fst (snd (tick a env s)))" by simp
  from tick_coordinated[OF m] obtain h L l where h: "checkpoint_handler s = Some h"
    and h': "checkpoint_handler (fst (poll a env s)) = Some (fst (coordinate env h L l))"
    and tr: "fst (snd (poll a env s)) = Dht_get # Logger_info_step L l # fst (snd (coordinate env h L l))"
    and r: "snd (snd (poll a env s)) = snd (snd (coordinate env h L l))"
    by auto
  from m have "Save_pretrained \<in> set (fst (snd (poll a env s)))"
    by (simp add: tick_trace_checkpoint_event)
  with tr have "Save_pretrained \<in> set (fst (snd (coordinate env h L l)))" by simp
  with a have c: "previous_timestamp (fst (coordinate env h L l)) = previous_timestamp h
     \<and> snd (snd (coordinate env h L l)) = Inl e"
    by (simp add: coordinate_upload_fails)
  show "map_option previous_timestamp (checkpoint_handler (fst (tick a env s)))
        = map_option previous_timestamp (checkpoint_handler s)"
    using h h' c by (simp add: tick_fst)
  show "snd (snd (tick a env s)) = Inl e"
    using r c by (simp add: tick_proj)
qed

theorem C6_bookkeeping_unchanged_on_failure_witness:
  "Load_state_from_peers \<in> set (fst (snd (tick (checkpointing_args 10 3600)
        ((answering (Some [(''p1'', Payload (peer_metrics 10 1 1))]))
           \<lparr>load_state_from_peers := Some TimeoutError\<rparr>)
        (state_at 9 (handler_at 10 3600 0 0)))))
   \<and> load_state_from_peers ((answering (Some [(''p1'', Payload (peer_metrics 10 1 1))]))
           \<lparr>load_state_from_peers := Some TimeoutError\<rparr>) = Some TimeoutError
   \<and> checkpoint_handler (fst (tick (checkpointing_args 10 3600)
        ((answering (Some [(''p1'', Payload (peer_metrics 10 1 1))]))
           \<lparr>load_state_from_peers := Some TimeoutError\<rparr>)
        (state_at 9 (handler_at 10 3600 0 0)))) = Some (handler_at 10 3600 0 0)
   \<and> Save_pretrained \<in> set (fst (snd (tick (checkpointing_args 10 3600)
        ((answering (Some [(''p1'', Payload (peer_metrics 10 1 1))]))
           \<lparr>time_at_check := 4000, save_pretrained := Some RuntimeError\<rparr>)
        (state_at 9 (handler_at 10 3600 0 0)))))
   \<and> save_pretrained ((answering (Some [(''p1'', Payload (peer_metrics 10 1 1))]))
           \<lparr>time_at_check := 4000, save_pretrained := Some RuntimeError\<rparr>) = Some RuntimeError
   \<and> map_option previous_timestamp (checkpoint_handler (fst (tick (checkpointing_args 10 3600)
        ((answering (Some [(''p1'', Payload (peer_metrics 10 1 1))]))
           \<lparr>time_at_check := 4000, save_pretrained := Some RuntimeError\<rparr>)
        (state_at 9 (handler_at 10 3600 0 0))))) = Some 0
   \<and> snd (snd (tick (checkpointing_args 10 3600)
        ((answering (Some [(''p1'', Payload (peer_metrics 10 1 1))]))
           \<lparr>time_at_check := 4000, save_pretrained := Some RuntimeError\<rparr>)
        (state_at 9 (handler_at 10 3600 0 0)))) = Inl RuntimeError"
proof -
  let ?h = "handler_at 10 3600 0 0"
  let ?s = "state_at 9 ?h"
  let ?env1 = "(answering (Some [(''p1'', Payload (peer_metrics 10 1 1))]))
           \<lparr>load_state_from_peers := Some TimeoutError\<rparr>"
  let ?env2 = "(answering (Some [(''p1'', Payload (peer_metrics 10 1 1))]))
           \<lparr>time_at_check := 4000, save_pretrained := Some RuntimeError\<rparr>"
  let ?a = "checkpointing_args 10 3600"
  have h1: "Load_state_from_peers \<in> set (fst (snd (tick ?a ?env1 ?s)))"
    by (simp add: eval_ckpt_defs)
  have h2: "load_state_from_peers ?env1 = Some TimeoutError" by simp
  have h3: "Save_pretrained \<in> set (fst (snd (tick ?a ?env2 ?s)))"
    by (simp add: eval_ckpt_defs)
  have h4: "save_pretrained ?env2 = Some RuntimeError" by simp
  have s: "checkpoint_handler ?s = Some ?h" "previous_timestamp ?h = 0"
    by (simp_all add: state_at_def handler_at_def)
  from C6_bookkeeping_unchanged_on_failure[where a="?a" and env="?env1" and s="?s" and e=TimeoutError]
    h1 h2
  have c1: "checkpoint_handler (fst (tick ?a ?env1 ?s)) = checkpoint_handler ?s" by blast
  from C6_bookkeeping_unchanged_on_failure[where a="?a" and env="?env2" and s="?s" and e=RuntimeError]
    h3 h4
  have c2: "map_option previous_timestamp (checkpoint_handler (fst (tick ?a ?env2 ?s)))
        = map_option previous_timestamp (checkpoint_handler ?s)
      \<and> snd (snd (tick ?a ?env2 ?s)) = Inl RuntimeError" by blast
  from h1 h2 h3 h4 c1 c2 s show ?thesis by simp
qed





text \<open>
  Claim C8 at its failing input: when the DHT answers an empty mapping, \<open>max\<close> of the
  empty sequence raises \<open>ValueError\<close> and the iteration ends without sleeping, whereas an
  absent mapping is tolerated (no snapshot, state unchanged, sleep and report) whenever
  the refresh period is not negative.
\<close>

theorem C8_empty_mapping_raises:
  "tick a (env\<lparr>dht_get := Inr (Some [])\<rparr>) s = (s, [Dht_get], Inl ValueError)
   \<and> (0 \<le> refresh_period a \<longrightarrow>
        tick a (env\<lparr>dht_get := Inr None, hmp_step := None\<rparr>) s =
          (s, [Dht_get, Time_sleep (refresh_period a),
               Hmp_step (current_step s) (monitor_metrics s)], Inr ()))"
  by (simp add: tick_def time_sleep_def poll_def)

theorem C8_empty_mapping_raises_witness:
  "0 \<le> refresh_period default_args
   \<and> tick default_args ((answering None)\<lparr>dht_get := Inr (Some [])\<rparr>) (initial_state default_args 0)
       = (initial_state default_args 0, [Dht_get], Inl ValueError)
   \<and> tick default_args ((answering None)\<lparr>dht_get := Inr None, hmp_step := None\<rparr>)
        (initial_state default_args 0)
       = (initial_state default_args 0, [Dht_get, Time_sleep 30, Hmp_step 0 None], Inr ())"
proof -
  have h: "0 \<le> refresh_period default_args" by (simp add: default_args_def)
  have v: "refresh_period default_args = 30" "current_step (initial_state default_args 0) = 0"
    "monitor_metrics (initial_state default_args 0) = None"
    by (simp_all add: default_args_def initial_state_def)
  from C8_empty_mapping_raises[where a=default_args and env="answering None"
      and s="initial_state default_args 0"] h
  show ?thesis unfolding v by simp
qed

text \<open>
  Claim C9. For every non-empty decoded peer-record mapping, the global step recorded by
  the iteration is the maximum of the records' \<open>step\<close> fields, and so is the step of any
  snapshot the iteration logs.
\<close>

theorem C9_step_is_max:
  assumes "dht_get env = Inr (Some d)" and "parse_all d = Inr ms" and "ms \<noteq> []"
  shows "current_step (fst (tick a env s)) = Max (step ` set ms)
       \<and> (\<forall>sn \<in> set (snapshots (fst (snd (tick a env s)))). fst sn = Max (step ` set ms))"
proof -
  have "current_step (fst (tick a env s)) = Max (step ` set ms)"
    using assms by (simp add: tick_fst poll_current_step_decoded)
  moreover have "\<forall>sn \<in> set (snapshots (fst (snd (tick a env s)))). fst sn = Max (step ` set ms)"
    using poll_snapshots[of a env s] assms by (auto simp add: tick_snapshots)
  ultimately show ?thesis by simp
qed

theorem C9_step_is_max_witness:
  "dht_get (answering (Some [(''p1'', Payload (peer_metrics 5 1 2)), (''p2'', Payload (peer_metrics 7 3 2))]))
     = Inr (Some [(''p1'', Payload (peer_metrics 5 1 2)), (''p2'', Payload (peer_metrics 7 3 2))])
   \<and> parse_all [(''p1'', Payload (peer_metrics 5 1 2)), (''p2'', Payload (peer_metrics 7 3 2))]
     = Inr [peer_metrics 5 1 2, peer_metrics 7 3 2]
   \<and> [peer_metrics 5 1 2, peer_metrics 7 3 2] \<noteq> []
   \<and> current_step (fst (tick default_args
        (answering (Some [(''p1'', Payload (peer_metrics 5 1 2)), (''p2'', Payload (peer_metrics 7 3 2))]))
        (initial_state default_args 0))) = 7
   \<and> snapshots (fst (snd (tick default_args
        (answering (Some [(''p1'', Payload (peer_metrics 5 1 2)), (''p2'', Payload (peer_metrics 7 3 2))]))
        (initial_state default_args 0)))) = [(7, 1)]"
proof -
  let ?d = "[(''p1'', Payload (peer_metrics 5 1 2)), (''p2'', Payload (peer_metrics 7 3 2))]"
  let ?ms = "[peer_metrics 5 1 2, peer_metrics 7 3 2]"
  have h1: "dht_get (answering (Some ?d)) = Inr (Some ?d)" by (simp add: answering_def)
  have h2: "parse_all ?d = Inr ?ms" by simp
  have h3: "?ms \<noteq> []" by simp
  have m: "Max (step ` set ?ms) = 7" by (simp add: peer_metrics_def)
  have sn: "snapshots (fst (snd (tick default_args (answering (Some ?d)) (initial_state default_args 0))))
     = [(7, 1)]"
    by (simp add: tick_def time_sleep_def poll_def new_step_def checkpoint_block_def accumulate_all_def
        accumulate_def zero_accumulators_def py_truediv_def answering_def peer_metrics_def
        default_args_def initial_state_def snapshots_simps Let_def)
  from C9_step_is_max[OF h1 h2 h3, of default_args "initial_state default_args 0"] m h1 h2 h3 sn
  show ?thesis by simp
qed

text \<open>
  Claim C10. The loop starts with \<open>current_step = 0\<close>. Over any first iterations whose
  decoded records all have \<open>step = 0\<close>, the state stays the initial one, the trace holds
  nothing but store reads, sleeps and reports of step 0 with empty metrics: no snapshot,
  no logged loss, no checkpoint activity. Over any iterations at all, the first snapshot
  logged has a step different from 0.
\<close>

theorem C10_no_progress_at_step_zero:
  "(list_all only_step_zero envs \<longrightarrow>
      fst (run a (initial_state a now) envs) = initial_state a now
      \<and> set (fst (snd (run a (initial_state a now) envs)))
          \<subseteq> {Dht_get, Time_sleep (refresh_period a), Hmp_step 0 None}
      \<and> snapshots (fst (snd (run a (initial_state a now) envs))) = []
      \<and> \<not> list_ex checkpoint_event (fst (snd (run a (initial_state a now) envs))))
   \<and> (snapshots (fst (snd (run a (initial_state a now) envs))) = sn # rest \<longrightarrow> fst sn \<noteq> 0)"
proof (intro conjI impI)
  have i: "current_step (initial_state a now) = 0" "monitor_metrics (initial_state a now) = None"
    by (simp_all add: initial_state_def)
  {
    assume z: "list_all only_step_zero envs"
    note r = run_only_step_zero[OF z i, of a]
    from r show "fst (run a (initial_state a now) envs) = initial_state a now" by simp
    from r show "set (fst (snd (run a (initial_state a now) envs)))
          \<subseteq> {Dht_get, Time_sleep (refresh_period a), Hmp_step 0 None}" by simp
    with quiet_trace show "snapshots (fst (snd (run a (initial_state a now) envs))) = []" by blast
    from r quiet_trace
    show "\<not> list_ex checkpoint_event (fst (snd (run a (initial_state a now) envs)))" by blast
  }
  assume "snapshots (fst (snd (run a (initial_state a now) envs))) = sn # rest"
  from run_first_snapshot[OF this] i show "fst sn \<noteq> 0" by simp
qed

theorem C10_no_progress_at_step_zero_witness:
  "list_all only_step_zero
     [answering None, answering (Some [(''p1'', Payload (peer_metrics 0 1 2))]),
      answering (Some [(''p1'', Payload (peer_metrics 0 1 2)), (''p2'', Payload (peer_metrics 0 3 2))])]
   \<and> run default_args (initial_state default_args 0)
     [answering None, answering (Some [(''p1'', Payload (peer_metrics 0 1 2))]),
      answering (Some [(''p1'', Payload (peer_metrics 0 1 2)), (''p2'', Payload (peer_metrics 0 3 2))])]
     = (initial_state default_args 0,
        [Dht_get, Time_sleep 30, Hmp_step 0 None, Dht_get, Time_sleep 30, Hmp_step 0 None,
         Dht_get, Time_sleep 30, Hmp_step 0 None], Inr ())
   \<and> snapshots (fst (snd (run default_args (initial_state default_args 0)
     [answering None, answering (Some [(''p1'', Payload (peer_metrics 0 1 2))]),
      answering (Some [(''p1'', Payload (peer_metrics 0 1 2)), (''p2'', Payload (peer_metrics 0 3 2))])])))
     = []
   \<and> snapshots (fst (snd (run default_args (initial_state default_args 0)
        [answering (Some [(''p1'', Payload (peer_metrics 0 1 2))]),
         answering (Some [(''p1'', Payload (peer_metrics 3 1 1))])]))) = (3, 1) # []
   \<and> fst (3 :: int, 1 :: real) \<noteq> 0"
proof -
  let ?quiet = "[answering None, answering (Some [(''p1'', Payload (peer_metrics 0 1 2))]),
      answering (Some [(''p1'', Payload (peer_metrics 0 1 2)), (''p2'', Payload (peer_metrics 0 3 2))])]"
  let ?later = "[answering (Some [(''p1'', Payload (peer_metrics 0 1 2))]),
         answering (Some [(''p1'', Payload (peer_metrics 3 1 1))])]"
  have h1: "list_all only_step_zero ?quiet"
    by (simp add: only_step_zero_def answering_def peer_metrics_def)
  have r: "run default_args (initial_state default_args 0) ?quiet
     = (initial_state default_args 0,
        [Dht_get, Time_sleep 30, Hmp_step 0 None, Dht_get, Time_sleep 30, Hmp_step 0 None,
         Dht_get, Time_sleep 30, Hmp_step 0 None], Inr ())"
    by (simp add: eval_defs)
  have h2: "snapshots (fst (snd (run default_args (initial_state default_args 0) ?later)))
      = (3, 1) # []"
    by (simp add: eval_defs snapshots_append)
  from C10_no_progress_at_step_zero[where a=default_args and now=0 and envs="?quiet"] h1
  have c1: "snapshots (fst (snd (run default_args (initial_state default_args 0) ?quiet))) = []"
    by blast
  from C10_no_progress_at_step_zero[where a=default_args and now=0 and envs="?later"
      and sn="(3, 1)" and rest="[]"] h2
  have c2: "fst (3 :: int, 1 :: real) \<noteq> 0" by blast
  from h1 r h2 c1 c2 show ?thesis by blast
qed


end
